theory Spec2Isabelle
  imports Main
begin

section \<open>The abstract Geometry class of jsts as a state-passing model\<close>

text \<open>
  The source is JavaScript: \<^verbatim>\<open>jsts.geom.Geometry\<close> (the base class of all geometries) and
  \<^verbatim>\<open>jsts.geom.GeometryFactory\<close>. Objects are mutable and are compared by identity, so
  geometries and factories live in a store and are named by their address. A method is
  a function from the store to a result and the store it leaves behind; a thrown
  exception is the left summand of the result.
\<close>

subsection \<open>Failures\<close>

datatype error =
    ReferenceError string  \<comment> \<open>an identifier that no enclosing scope declares\<close>
  | TypeError string       \<comment> \<open>a call of a property that is not a function, or a property of null\<close>
  | Error string           \<comment> \<open>\<^verbatim>\<open>throw new Error(msg)\<close>\<close>
  | ServiceError string    \<comment> \<open>a failure raised inside an external service\<close>

subsection \<open>Objects and the store\<close>

text \<open>
  The class of an object: the base class itself (\<^verbatim>\<open>new jsts.geom.Geometry(factory)\<close>) or one
  of the concrete variants. The variants are not part of the source; what they add to
  the base class is a parameter of the model (see \<open>variant\<close> below).
\<close>

datatype kind =
    Geometry | Point | MultiPoint | LineString | LinearRing
  | MultiLineString | Polygon | MultiPolygon | GeometryCollection

text \<open>
  \<^verbatim>\<open>jsts.geom.GeometryFactory = function() {}; prototype.SRID = null\<close>: a factory object
  holds its SRID, which is null unless somebody sets it.
\<close>

record geometry_factory =
  factory_SRID :: "int option"

text \<open>
  A geometry object. \<open>factory\<close> is the address of the factory handed to the constructor
  (the constructor dereferences it, so a constructed geometry always has one);
  \<open>envelope\<close> is the cache slot, \<open>None\<close> for JavaScript's null; \<open>SRID\<close> may be null as the
  factory's is; \<open>payload\<close> is whatever a variant stores (coordinates, children),
  \<open>None\<close> for an object of the base class.
\<close>

record ('p, 'e) geometry =
  cls :: kind
  factory :: nat
  envelope :: "'e option"
  SRID :: "int option"
  payload :: "'p option"

record ('p, 'e) store =
  geoms :: "nat \<Rightarrow> ('p, 'e) geometry"
  factories :: "nat \<Rightarrow> geometry_factory"
  nextref :: nat  \<comment> \<open>the address the next \<^verbatim>\<open>new\<close> of a geometry gets\<close>

type_synonym ('a, 'p, 'e) js = "('p, 'e) store \<Rightarrow> (error + 'a) \<times> ('p, 'e) store"

definition ret :: "'a \<Rightarrow> ('a, 'p, 'e) js" where
  "ret x = (\<lambda>h. (Inr x, h))"

definition throw :: "error \<Rightarrow> ('a, 'p, 'e) js" where
  "throw e = (\<lambda>h. (Inl e, h))"

definition bindS :: "('a, 'p, 'e) js \<Rightarrow> ('a \<Rightarrow> ('b, 'p, 'e) js) \<Rightarrow> ('b, 'p, 'e) js" where
  "bindS m f = (\<lambda>h. case m h of (Inl e, h') \<Rightarrow> (Inl e, h') | (Inr x, h') \<Rightarrow> f x h')"

subsection \<open>What is not in the source: variants, globals and services\<close>

text \<open>
  A concrete variant may define or override methods of \<^verbatim>\<open>Geometry.prototype\<close>. Each field
  is \<open>None\<close> when the variant does not define the method, so that the call finds what
  \<^verbatim>\<open>Geometry.prototype\<close> has under that name, if anything. The methods that only read are
  functions of the store and the receiver; \<^verbatim>\<open>clone\<close> builds objects, so it transforms
  the store.
\<close>

record ('p, 'e) variant =
  ov_isEmpty :: "(('p, 'e) store \<Rightarrow> nat \<Rightarrow> bool) option"
  ov_getDimension :: "(('p, 'e) store \<Rightarrow> nat \<Rightarrow> int) option"
  ov_computeEnvelopeInternal :: "(('p, 'e) store \<Rightarrow> nat \<Rightarrow> 'e option) option"
  ov_isRectangle :: "(('p, 'e) store \<Rightarrow> nat \<Rightarrow> bool) option"
  ov_getClassSortIndex :: "(('p, 'e) store \<Rightarrow> nat \<Rightarrow> int) option"
  ov_compareToSameClass :: "(('p, 'e) store \<Rightarrow> nat \<Rightarrow> nat \<Rightarrow> int) option"
  ov_clone :: "(nat \<Rightarrow> (nat, 'p, 'e) js) option"

datatype opcode = INTERSECTION | UNION | DIFFERENCE | SYMDIFFERENCE

text \<open>
  The environment the methods run in.
  \<^item> \<open>classes\<close>: what each variant adds to the base class;
    \<open>extends_GeometryCollection\<close>: whether a variant has \<^verbatim>\<open>GeometryCollection.prototype\<close> on
    its prototype chain (what \<^verbatim>\<open>instanceof\<close> asks).
  \<^item> \<open>global_envelope\<close>, \<open>global_o\<close>: the bindings of the identifiers \<^verbatim>\<open>envelope\<close> and \<^verbatim>\<open>o\<close> in the
    global scope. The source declares neither (\<open>None\<close>); another script could.
  \<^item> \<open>factory_createGeometryCollection\<close>: \<^verbatim>\<open>GeometryFactory.prototype\<close> of the source has
    \<^verbatim>\<open>getSRID\<close>, \<^verbatim>\<open>createPoint\<close>, \<^verbatim>\<open>createLineString\<close> and \<^verbatim>\<open>createLinearRing\<close> and no
    \<^verbatim>\<open>createGeometryCollection\<close> (\<open>None\<close>); the field lets a richer factory be described.
  \<^item> the external services: \<^verbatim>\<open>Envelope\<close>, \<^verbatim>\<open>IntersectionMatrix\<close>, \<^verbatim>\<open>RelateOp\<close>,
    \<^verbatim>\<open>SnapIfNeededOverlayOp\<close>, \<^verbatim>\<open>UnaryUnionOp\<close>, \<^verbatim>\<open>RectangleIntersects\<close>, \<^verbatim>\<open>RectangleContains\<close>.
\<close>

record ('p, 'e, 'm) env =
  classes :: "kind \<Rightarrow> ('p, 'e) variant"
  extends_GeometryCollection :: "kind \<Rightarrow> bool"
  global_envelope :: "'e option option"
  global_o :: "nat option"
  factory_createGeometryCollection :: "(nat \<Rightarrow> (nat, 'p, 'e) js) option"
  Envelope_copy :: "'e \<Rightarrow> 'e"
  Envelope_intersects :: "'e \<Rightarrow> 'e option \<Rightarrow> bool"
  Envelope_contains :: "'e \<Rightarrow> 'e option \<Rightarrow> bool"
  Envelope_covers :: "'e \<Rightarrow> 'e option \<Rightarrow> bool"
  IM_isTouches :: "'m \<Rightarrow> int \<Rightarrow> int \<Rightarrow> bool"
  IM_isCrosses :: "'m \<Rightarrow> int \<Rightarrow> int \<Rightarrow> bool"
  IM_isOverlaps :: "'m \<Rightarrow> int \<Rightarrow> int \<Rightarrow> bool"
  IM_isIntersects :: "'m \<Rightarrow> bool"
  IM_isContains :: "'m \<Rightarrow> bool"
  IM_isCovers :: "'m \<Rightarrow> bool"
  RelateOp_relate :: "nat \<Rightarrow> nat \<Rightarrow> ('m, 'p, 'e) js"
  overlayOp :: "nat \<Rightarrow> nat \<Rightarrow> opcode \<Rightarrow> (nat, 'p, 'e) js"
  UnaryUnionOp_union :: "nat \<Rightarrow> (nat, 'p, 'e) js"
  RectangleIntersects_intersects :: "nat \<Rightarrow> nat \<Rightarrow> (bool, 'p, 'e) js"
  RectangleContains_contains :: "nat \<Rightarrow> nat \<Rightarrow> (bool, 'p, 'e) js"

subsection \<open>Method lookup\<close>

definition no_overrides :: "('p, 'e) variant" where
  "no_overrides = \<lparr>ov_isEmpty = None, ov_getDimension = None,
     ov_computeEnvelopeInternal = None, ov_isRectangle = None,
     ov_getClassSortIndex = None, ov_compareToSameClass = None, ov_clone = None\<rparr>"

text \<open>An object of the base class has the methods of \<^verbatim>\<open>Geometry.prototype\<close> and no others.\<close>

definition class_of :: "('p, 'e, 'm) env \<Rightarrow> ('p, 'e) store \<Rightarrow> nat \<Rightarrow> ('p, 'e) variant" where
  "class_of env h r =
     (if cls (geoms h r) = Geometry then no_overrides else classes env (cls (geoms h r)))"

text \<open>\<^verbatim>\<open>g instanceof jsts.geom.GeometryCollection\<close>\<close>

definition instanceof_GeometryCollection :: "('p, 'e, 'm) env \<Rightarrow> kind \<Rightarrow> bool" where
  "instanceof_GeometryCollection env k =
     (k = GeometryCollection \<or> (k \<noteq> Geometry \<and> extends_GeometryCollection env k))"

subsection \<open>The constructor and the per-variant methods with a default in the base class\<close>

text \<open>\<^verbatim>\<open>GeometryFactory.prototype.getSRID = function() { return this.SRID; }\<close>\<close>

definition factory_getSRID :: "('p, 'e) store \<Rightarrow> nat \<Rightarrow> int option" where
  "factory_getSRID h f = factory_SRID (factories h f)"

text \<open>
  \<^verbatim>\<open>jsts.geom.Geometry = function(factory) { this.factory = factory;
      this.SRID = factory.getSRID(); }\<close>
  The new object gets no \<^verbatim>\<open>envelope\<close> property of its own: reading it finds the
  prototype's \<^verbatim>\<open>envelope = null\<close>.
\<close>

definition new_Geometry :: "nat \<Rightarrow> (nat, 'p, 'e) js" where
  "new_Geometry f = (\<lambda>h.
     (Inr (nextref h),
      h\<lparr>geoms := (geoms h)(nextref h :=
           \<lparr>cls = Geometry, factory = f, envelope = None,
            SRID = factory_getSRID h f, payload = None\<rparr>),
        nextref := Suc (nextref h)\<rparr>))"

text \<open>\<^verbatim>\<open>getFactory = function() { return this.factory; }\<close>\<close>

definition getFactory :: "('p, 'e) store \<Rightarrow> nat \<Rightarrow> nat" where
  "getFactory h this = factory (geoms h this)"

text \<open>\<^verbatim>\<open>isEmpty = function() { return true; }\<close>\<close>

definition isEmpty :: "('p, 'e, 'm) env \<Rightarrow> ('p, 'e) store \<Rightarrow> nat \<Rightarrow> bool" where
  "isEmpty env h this =
     (case ov_isEmpty (class_of env h this) of None \<Rightarrow> True | Some f \<Rightarrow> f h this)"

text \<open>\<^verbatim>\<open>getDimension = function() { return 0; }\<close>\<close>

definition getDimension :: "('p, 'e, 'm) env \<Rightarrow> ('p, 'e) store \<Rightarrow> nat \<Rightarrow> int" where
  "getDimension env h this =
     (case ov_getDimension (class_of env h this) of None \<Rightarrow> 0 | Some f \<Rightarrow> f h this)"

text \<open>\<^verbatim>\<open>computeEnvelopeInternal = function() { return null; }\<close>\<close>

definition computeEnvelopeInternal ::
  "('p, 'e, 'm) env \<Rightarrow> ('p, 'e) store \<Rightarrow> nat \<Rightarrow> 'e option" where
  "computeEnvelopeInternal env h this =
     (case ov_computeEnvelopeInternal (class_of env h this) of
        None \<Rightarrow> None | Some f \<Rightarrow> f h this)"

text \<open>
  \<^verbatim>\<open>compareToSameClass = function(o) { return 0; }\<close>, assigned again with the parameters
  \<^verbatim>\<open>(o, comp)\<close> and the same body.
\<close>

definition compareToSameClass ::
  "('p, 'e, 'm) env \<Rightarrow> ('p, 'e) store \<Rightarrow> nat \<Rightarrow> nat \<Rightarrow> int" where
  "compareToSameClass env h this other =
     (case ov_compareToSameClass (class_of env h this) of
        None \<Rightarrow> 0 | Some f \<Rightarrow> f h this other)"

text \<open>
  \<^verbatim>\<open>Geometry.prototype\<close> has no \<^verbatim>\<open>isRectangle\<close> and no \<^verbatim>\<open>getClassSortIndex\<close>: calling one on
  an object whose class does not define it is a TypeError.
\<close>

definition isRectangle :: "('p, 'e, 'm) env \<Rightarrow> nat \<Rightarrow> (bool, 'p, 'e) js" where
  "isRectangle env this = (\<lambda>h.
     case ov_isRectangle (class_of env h this) of
       None \<Rightarrow> throw (TypeError ''isRectangle'') h
     | Some f \<Rightarrow> ret (f h this) h)"

definition getClassSortIndex :: "('p, 'e, 'm) env \<Rightarrow> nat \<Rightarrow> (int, 'p, 'e) js" where
  "getClassSortIndex env this = (\<lambda>h.
     case ov_getClassSortIndex (class_of env h this) of
       None \<Rightarrow> throw (TypeError ''getClassSortIndex'') h
     | Some f \<Rightarrow> ret (f h this) h)"

subsection \<open>clone\<close>

text \<open>
  \<^verbatim>\<open>clone = function() {
    var clone = new jsts.geom.Geometry(this.factory);
    if (clone.envelope !== null) {
      clone.envelope = new jsts.geom.Envelope(clone.envelope);
    }
    return clone;
  }\<close>
  The test reads the envelope of the new object, not of \<^verbatim>\<open>this\<close>.
\<close>

definition clone_Geometry :: "('p, 'e, 'm) env \<Rightarrow> nat \<Rightarrow> (nat, 'p, 'e) js" where
  "clone_Geometry env this = (\<lambda>h.
     bindS (new_Geometry (factory (geoms h this)))
       (\<lambda>c h'. case envelope (geoms h' c) of
           None \<Rightarrow> ret c h'
         | Some e \<Rightarrow>
             ret c (h'\<lparr>geoms := (geoms h')(c :=
                      (geoms h' c)\<lparr>envelope := Some (Envelope_copy env e)\<rparr>)\<rparr>)) h)"

text \<open>\<^verbatim>\<open>x.clone()\<close>: the variant's own clone where it has one.\<close>

definition clone :: "('p, 'e, 'm) env \<Rightarrow> nat \<Rightarrow> (nat, 'p, 'e) js" where
  "clone env this = (\<lambda>h.
     case ov_clone (class_of env h this) of
       None \<Rightarrow> clone_Geometry env this h
     | Some f \<Rightarrow> f this h)"

subsection \<open>The envelope cache\<close>

text \<open>
  \<^verbatim>\<open>getEnvelopeInternal = function() {
    if (this.envelope === null) {
      this.envelope = this.computeEnvelopeInternal();
    }
    return envelope;
  }\<close>
  The returned expression is the bare identifier \<^verbatim>\<open>envelope\<close>, not \<^verbatim>\<open>this.envelope\<close>: the
  function has no such parameter or local variable, so the identifier is looked up in
  the global scope.
\<close>

definition getEnvelopeInternal :: "('p, 'e, 'm) env \<Rightarrow> nat \<Rightarrow> ('e option, 'p, 'e) js" where
  "getEnvelopeInternal env this = (\<lambda>h.
     let h1 = (if envelope (geoms h this) = None
               then h\<lparr>geoms := (geoms h)(this :=
                      (geoms h this)\<lparr>envelope := computeEnvelopeInternal env h this\<rparr>)\<rparr>
               else h)
     in case global_envelope env of
          None \<Rightarrow> throw (ReferenceError ''envelope'') h1
        | Some v \<Rightarrow> ret v h1)"

text \<open>
  \<^verbatim>\<open>this.getEnvelopeInternal().test(g.getEnvelopeInternal())\<close>, the short-circuit test of
  the predicates: the receiver is evaluated first, a null receiver has no method to
  call, then the argument is evaluated and the method of \<^verbatim>\<open>Envelope\<close> is called.
\<close>

definition envelope_test ::
  "('e \<Rightarrow> 'e option \<Rightarrow> bool) \<Rightarrow> string \<Rightarrow> ('p, 'e, 'm) env \<Rightarrow> nat \<Rightarrow> nat \<Rightarrow> (bool, 'p, 'e) js" where
  "envelope_test test name env this g =
     bindS (getEnvelopeInternal env this) (\<lambda>e1.
       case e1 of
         None \<Rightarrow> throw (TypeError name)
       | Some a \<Rightarrow> bindS (getEnvelopeInternal env g) (\<lambda>e2. ret (test a e2)))"

subsection \<open>relate and the predicates\<close>

text \<open>
  \<^verbatim>\<open>checkNotGeometryCollection = function(g) {
    if (g instanceof jsts.geom.GeometryCollection) {
      throw new Error('This method does not support GeometryCollection');
    }
  }\<close>
\<close>

definition checkNotGeometryCollection :: "('p, 'e, 'm) env \<Rightarrow> nat \<Rightarrow> (unit, 'p, 'e) js" where
  "checkNotGeometryCollection env g = (\<lambda>h.
     if instanceof_GeometryCollection env (cls (geoms h g))
     then throw (Error ''This method does not support GeometryCollection'') h
     else ret () h)"

text \<open>\<^verbatim>\<open>isGeometryCollection = function() { return (this instanceof jsts.geom.GeometryCollection); }\<close>\<close>

definition isGeometryCollection :: "('p, 'e, 'm) env \<Rightarrow> ('p, 'e) store \<Rightarrow> nat \<Rightarrow> bool" where
  "isGeometryCollection env h this = instanceof_GeometryCollection env (cls (geoms h this))"

text \<open>
  \<^verbatim>\<open>Geometry.prototype.relate\<close> is assigned twice: first \<^verbatim>\<open>function(g, intersectionPattern)\<close>,
  then \<^verbatim>\<open>function(g)\<close>. The second assignment replaces the first, so \<^verbatim>\<open>x.relate(g)\<close> runs
  \<^verbatim>\<open>function(g) {
    this.checkNotGeometryCollection(this);
    this.checkNotGeometryCollection(g);
    return RelateOp.relate(this, g);
  }\<close>
\<close>

definition relate :: "('p, 'e, 'm) env \<Rightarrow> nat \<Rightarrow> nat \<Rightarrow> ('m, 'p, 'e) js" where
  "relate env this g =
     bindS (checkNotGeometryCollection env this) (\<lambda>_.
     bindS (checkNotGeometryCollection env g) (\<lambda>_.
     RelateOp_relate env this g))"

text \<open>
  \<^verbatim>\<open>touches = function(g) {
    if (!this.getEnvelopeInternal().intersects(g.getEnvelopeInternal())) {
      return false;
    }
    return this.relate(g).isTouches(this.getDimension(), g.getDimension());
  }\<close>
  \<^verbatim>\<open>crosses\<close> and \<^verbatim>\<open>overlaps\<close> are the same with \<^verbatim>\<open>isCrosses\<close> and \<^verbatim>\<open>isOverlaps\<close>.
\<close>

definition touches :: "('p, 'e, 'm) env \<Rightarrow> nat \<Rightarrow> nat \<Rightarrow> (bool, 'p, 'e) js" where
  "touches env this g =
     bindS (envelope_test (Envelope_intersects env) ''intersects'' env this g) (\<lambda>b.
       if \<not> b then ret False
       else bindS (relate env this g) (\<lambda>m h.
              ret (IM_isTouches env m (getDimension env h this) (getDimension env h g)) h))"

definition crosses :: "('p, 'e, 'm) env \<Rightarrow> nat \<Rightarrow> nat \<Rightarrow> (bool, 'p, 'e) js" where
  "crosses env this g =
     bindS (envelope_test (Envelope_intersects env) ''intersects'' env this g) (\<lambda>b.
       if \<not> b then ret False
       else bindS (relate env this g) (\<lambda>m h.
              ret (IM_isCrosses env m (getDimension env h this) (getDimension env h g)) h))"

definition overlaps :: "('p, 'e, 'm) env \<Rightarrow> nat \<Rightarrow> nat \<Rightarrow> (bool, 'p, 'e) js" where
  "overlaps env this g =
     bindS (envelope_test (Envelope_intersects env) ''intersects'' env this g) (\<lambda>b.
       if \<not> b then ret False
       else bindS (relate env this g) (\<lambda>m h.
              ret (IM_isOverlaps env m (getDimension env h this) (getDimension env h g)) h))"

text \<open>
  \<^verbatim>\<open>intersects = function(g) {
    if (!this.getEnvelopeInternal().intersects(g.getEnvelopeInternal())) {
      return false;
    }
    if (this.isRectangle()) {
      return RectangleIntersects.intersects(this, g);
    }
    if (g.isRectangle()) {
      return RectangleIntersects.intersects(g, this);
    }
    return this.relate(g).isIntersects();
  }\<close>
\<close>

definition intersects :: "('p, 'e, 'm) env \<Rightarrow> nat \<Rightarrow> nat \<Rightarrow> (bool, 'p, 'e) js" where
  "intersects env this g =
     bindS (envelope_test (Envelope_intersects env) ''intersects'' env this g) (\<lambda>b.
       if \<not> b then ret False
       else bindS (isRectangle env this) (\<lambda>r1.
         if r1 then RectangleIntersects_intersects env this g
         else bindS (isRectangle env g) (\<lambda>r2.
           if r2 then RectangleIntersects_intersects env g this
           else bindS (relate env this g) (\<lambda>m. ret (IM_isIntersects env m)))))"

text \<open>\<^verbatim>\<open>disjoint = function(g) { return !this.intersects(g); }\<close>\<close>

definition disjoint :: "('p, 'e, 'm) env \<Rightarrow> nat \<Rightarrow> nat \<Rightarrow> (bool, 'p, 'e) js" where
  "disjoint env this g = bindS (intersects env this g) (\<lambda>b. ret (\<not> b))"

text \<open>
  \<^verbatim>\<open>contains = function(g) {
    if (!this.getEnvelopeInternal().contains(g.getEnvelopeInternal())) {
      return false;
    }
    if (this.isRectangle()) {
      return RectangleContains.contains(this, g);
    }
    return this.relate(g).isContains();
  }\<close>
\<close>

definition contains :: "('p, 'e, 'm) env \<Rightarrow> nat \<Rightarrow> nat \<Rightarrow> (bool, 'p, 'e) js" where
  "contains env this g =
     bindS (envelope_test (Envelope_contains env) ''contains'' env this g) (\<lambda>b.
       if \<not> b then ret False
       else bindS (isRectangle env this) (\<lambda>r1.
         if r1 then RectangleContains_contains env this g
         else bindS (relate env this g) (\<lambda>m. ret (IM_isContains env m))))"

text \<open>\<^verbatim>\<open>within = function(g) { return g.contains(this); }\<close>\<close>

definition within :: "('p, 'e, 'm) env \<Rightarrow> nat \<Rightarrow> nat \<Rightarrow> (bool, 'p, 'e) js" where
  "within env this g = contains env g this"

text \<open>
  \<^verbatim>\<open>covers = function(g) {
    if (!this.getEnvelopeInternal().covers(g.getEnvelopeInternal())) {
      return false;
    }
    if (this.isRectangle()) {
      return true;
    }
    return this.relate(g).isCovers();
  }\<close>
\<close>

definition covers :: "('p, 'e, 'm) env \<Rightarrow> nat \<Rightarrow> nat \<Rightarrow> (bool, 'p, 'e) js" where
  "covers env this g =
     bindS (envelope_test (Envelope_covers env) ''covers'' env this g) (\<lambda>b.
       if \<not> b then ret False
       else bindS (isRectangle env this) (\<lambda>r1.
         if r1 then ret True
         else bindS (relate env this g) (\<lambda>m. ret (IM_isCovers env m))))"

text \<open>\<^verbatim>\<open>coveredBy = function(g) { return g.covers(this); }\<close>\<close>

definition coveredBy :: "('p, 'e, 'm) env \<Rightarrow> nat \<Rightarrow> nat \<Rightarrow> (bool, 'p, 'e) js" where
  "coveredBy env this g = covers env g this"

subsection \<open>The overlay operations\<close>

text \<open>
  \<^verbatim>\<open>this.getFactory().createGeometryCollection(null)\<close>: a TypeError when the factory has
  no such method.
\<close>

definition createGeometryCollection_null :: "('p, 'e, 'm) env \<Rightarrow> nat \<Rightarrow> (nat, 'p, 'e) js" where
  "createGeometryCollection_null env f =
     (case factory_createGeometryCollection env of
        None \<Rightarrow> throw (TypeError ''createGeometryCollection'')
      | Some mk \<Rightarrow> mk f)"

text \<open>
  \<^verbatim>\<open>intersection = function(other) {
    if (this.isEmpty()) {
      return this.getFactory().createGeometryCollection(null);
    }
    if (other.isEmpty()) {
      return this.getFactory().createGeometryCollection(null);
    }
    if (this.isGeometryCollection(this)) {
      var g2 = other;       // the rest of the block is commented out
    }
    this.checkNotGeometryCollection(this);
    this.checkNotGeometryCollection(other);
    return SnapIfNeededOverlayOp.overlayOp(this, other, OverlayOp.INTERSECTION);
  }\<close>
\<close>

definition intersection :: "('p, 'e, 'm) env \<Rightarrow> nat \<Rightarrow> nat \<Rightarrow> (nat, 'p, 'e) js" where
  "intersection env this other = (\<lambda>h.
     if isEmpty env h this then createGeometryCollection_null env (getFactory h this) h
     else if isEmpty env h other then createGeometryCollection_null env (getFactory h this) h
     else (let g2 = (if isGeometryCollection env h this then Some other else None)
           in bindS (checkNotGeometryCollection env this) (\<lambda>_.
              bindS (checkNotGeometryCollection env other) (\<lambda>_.
              overlayOp env this other INTERSECTION)) h))"

text \<open>
  \<^verbatim>\<open>Geometry.prototype.union\<close> is assigned twice. First, at line 1123:
  \<^verbatim>\<open>union = function(other) {
    if (this.isEmpty()) {
      return other.clone();
    }
    if (other.isEmpty()) {
      return this.clone();
    }
    this.checkNotGeometryCollection(this);
    this.checkNotGeometryCollection(other);
    return SnapIfNeededOverlayOp.overlayOp(this, other, OverlayOp.UNION);
  }\<close>
  and then, at line 1221:
  \<^verbatim>\<open>union = function() { return UnaryUnionOp.union(this); }\<close>
  JavaScript has no overloading by arity: the second assignment replaces the first, and
  a call \<^verbatim>\<open>x.union(y)\<close> runs the second function, which never looks at its argument.
\<close>

definition union_1123 :: "('p, 'e, 'm) env \<Rightarrow> nat \<Rightarrow> nat \<Rightarrow> (nat, 'p, 'e) js" where
  "union_1123 env this other = (\<lambda>h.
     if isEmpty env h this then clone env other h
     else if isEmpty env h other then clone env this h
     else bindS (checkNotGeometryCollection env this) (\<lambda>_.
          bindS (checkNotGeometryCollection env other) (\<lambda>_.
          overlayOp env this other UNION)) h)"

definition union_1221 :: "('p, 'e, 'm) env \<Rightarrow> nat \<Rightarrow> (nat, 'p, 'e) js" where
  "union_1221 env this = UnaryUnionOp_union env this"

definition union :: "('p, 'e, 'm) env \<Rightarrow> nat \<Rightarrow> nat \<Rightarrow> (nat, 'p, 'e) js" where
  "union env this other = union_1221 env this"

text \<open>
  \<^verbatim>\<open>difference = function(other) {
    if (this.isEmpty()) {
      return this.getFactory().createGeometryCollection(null);
    }
    if (other.isEmpty()) {
      return this.clone();
    }
    this.heckNotGeometryCollection(this);
    this.checkNotGeometryCollection(other);
    return SnapIfNeededOverlayOp.overlayOp(this, other, OverlayOp.DIFFERENCE);
  }\<close>
  No object has a property \<^verbatim>\<open>heckNotGeometryCollection\<close>: the call is a TypeError.
\<close>

definition difference :: "('p, 'e, 'm) env \<Rightarrow> nat \<Rightarrow> nat \<Rightarrow> (nat, 'p, 'e) js" where
  "difference env this other = (\<lambda>h.
     if isEmpty env h this then createGeometryCollection_null env (getFactory h this) h
     else if isEmpty env h other then clone env this h
     else bindS (throw (TypeError ''heckNotGeometryCollection'')) (\<lambda>_ :: unit.
          bindS (checkNotGeometryCollection env other) (\<lambda>_.
          overlayOp env this other DIFFERENCE)) h)"

text \<open>
  \<^verbatim>\<open>symDifference = function(other) {
    if (this.isEmpty()) {
      return other.clone();
    }
    if (other.isEmpty()) {
      return this.clone();
    }
    this.checkNotGeometryCollection(this);
    this.checkNotGeometryCollection(other);
    return SnapIfNeededOverlayOp.overlayOp(this, other, OverlayOp.SYMDIFFERENCE);
  }\<close>
\<close>

definition symDifference :: "('p, 'e, 'm) env \<Rightarrow> nat \<Rightarrow> nat \<Rightarrow> (nat, 'p, 'e) js" where
  "symDifference env this other = (\<lambda>h.
     if isEmpty env h this then clone env other h
     else if isEmpty env h other then clone env this h
     else bindS (checkNotGeometryCollection env this) (\<lambda>_.
          bindS (checkNotGeometryCollection env other) (\<lambda>_.
          overlayOp env this other SYMDIFFERENCE)) h)"

subsection \<open>compareTo\<close>

text \<open>
  \<^verbatim>\<open>Geometry.prototype.compareTo\<close> is assigned twice, \<^verbatim>\<open>function(other)\<close> and then
  \<^verbatim>\<open>function(other, comp)\<close>; a call runs the second:
  \<^verbatim>\<open>compareTo = function(other, comp) {
    if (this.getClassSortIndex() !== other.getClassSortIndex()) {
      return this.getClassSortIndex() - other.getClassSortIndex();
    }
    if (this.isEmpty() && other.isEmpty()) {
      return 0;
    }
    if (this.isEmpty()) {
      return -1;
    }
    if (other.isEmpty()) {
      return 1;
    }
    return this.compareToSameClass(o, comp);
  }\<close>
  The first differs only in its last line, \<^verbatim>\<open>return this.compareToSameClass(o);\<close>. In
  both, the argument is the identifier \<^verbatim>\<open>o\<close>, not the parameter \<^verbatim>\<open>other\<close>: it is looked up
  in the global scope. \<^verbatim>\<open>getClassSortIndex\<close> only reads, so its second pair of calls
  gives the values of the first.
\<close>

definition compareTo :: "('p, 'e, 'm) env \<Rightarrow> nat \<Rightarrow> nat \<Rightarrow> (int, 'p, 'e) js" where
  "compareTo env this other =
     bindS (getClassSortIndex env this) (\<lambda>i.
     bindS (getClassSortIndex env other) (\<lambda>j.
       if i \<noteq> j then ret (i - j)
       else (\<lambda>h.
         if isEmpty env h this \<and> isEmpty env h other then ret 0 h
         else if isEmpty env h this then ret (- 1) h
         else if isEmpty env h other then ret 1 h
         else (case global_o env of
                 None \<Rightarrow> throw (ReferenceError ''o'') h
               | Some r \<Rightarrow> ret (compareToSameClass env h this r) h))))"

section \<open>A concrete environment\<close>

text \<open>
  To run the methods on concrete objects, the parameters need values. In this sample
  environment a geometry's payload is its list of integer coordinates, an envelope is a
  box \<open>(minx, maxx, miny, maxy)\<close> and an intersection matrix is its nine characters.
  The global scope and the factory are those of the source: no \<^verbatim>\<open>envelope\<close>, no \<^verbatim>\<open>o\<close>,
  no \<^verbatim>\<open>createGeometryCollection\<close>.
\<close>

type_synonym coords = "(int \<times> int) list"
type_synonym box = "int \<times> int \<times> int \<times> int"

definition box_of :: "coords \<Rightarrow> box option" where
  "box_of cs =
     (case cs of
        [] \<Rightarrow> None
      | (x0, y0) # r \<Rightarrow>
          Some (fold (\<lambda>(x, y) (a, b, c, d). (min a x, max b x, min c y, max d y)) r
                  (x0, x0, y0, y0)))"

definition box_intersects :: "box \<Rightarrow> box option \<Rightarrow> bool" where
  "box_intersects e1 e2 =
     (case (e1, e2) of
        (_, None) \<Rightarrow> False
      | ((a1, b1, c1, d1), Some (a2, b2, c2, d2)) \<Rightarrow>
          a1 \<le> b2 \<and> a2 \<le> b1 \<and> c1 \<le> d2 \<and> c2 \<le> d1)"

definition box_covers :: "box \<Rightarrow> box option \<Rightarrow> bool" where
  "box_covers e1 e2 =
     (case (e1, e2) of
        (_, None) \<Rightarrow> False
      | ((a1, b1, c1, d1), Some (a2, b2, c2, d2)) \<Rightarrow>
          a1 \<le> a2 \<and> b2 \<le> b1 \<and> c1 \<le> c2 \<and> d2 \<le> d1)"

definition is_box :: "coords \<Rightarrow> bool" where
  "is_box cs =
     (case cs of
        [p0, p1, p2, p3, p4] \<Rightarrow>
          p4 = p0 \<and> snd p1 = snd p0 \<and> fst p2 = fst p1 \<and> snd p3 = snd p2 \<and> fst p3 = fst p0
      | _ \<Rightarrow> False)"

text \<open>Modelled from the spec: the fixed order of the variant kinds (section 3).\<close>

fun sort_index :: "kind \<Rightarrow> int" where
  "sort_index Point = 0"
| "sort_index MultiPoint = 1"
| "sort_index LineString = 2"
| "sort_index LinearRing = 3"
| "sort_index MultiLineString = 4"
| "sort_index Polygon = 5"
| "sort_index MultiPolygon = 6"
| "sort_index GeometryCollection = 7"
| "sort_index Geometry = 8"

fun dimension_of :: "kind \<Rightarrow> int" where
  "dimension_of Point = 0"
| "dimension_of MultiPoint = 0"
| "dimension_of LineString = 1"
| "dimension_of LinearRing = 1"
| "dimension_of MultiLineString = 1"
| "dimension_of Polygon = 2"
| "dimension_of MultiPolygon = 2"
| "dimension_of GeometryCollection = 2"
| "dimension_of Geometry = 0"

text \<open>A new object of class \<open>k\<close> with the factory and the payload of \<open>src\<close>.\<close>

definition copy_as :: "kind \<Rightarrow> nat \<Rightarrow> (nat, 'p, 'e) js" where
  "copy_as k src = (\<lambda>h.
     (Inr (nextref h),
      h\<lparr>geoms := (geoms h)(nextref h :=
           \<lparr>cls = k, factory = factory (geoms h src), envelope = None,
            SRID = factory_getSRID h (factory (geoms h src)),
            payload = payload (geoms h src)\<rparr>),
        nextref := Suc (nextref h)\<rparr>))"

text \<open>
  The sample variants: empty when there are no coordinates, the envelope is the bounding
  box, a polygon is a rectangle when its ring is a box, and clone copies the payload.
\<close>

definition sample_class :: "kind \<Rightarrow> (coords, box) variant" where
  "sample_class k =
     \<lparr>ov_isEmpty = Some (\<lambda>h r. case payload (geoms h r) of None \<Rightarrow> True | Some cs \<Rightarrow> cs = []),
      ov_getDimension = Some (\<lambda>h r. dimension_of k),
      ov_computeEnvelopeInternal =
        Some (\<lambda>h r. case payload (geoms h r) of None \<Rightarrow> None | Some cs \<Rightarrow> box_of cs),
      ov_isRectangle =
        Some (\<lambda>h r. k = Polygon \<and>
                (case payload (geoms h r) of None \<Rightarrow> False | Some cs \<Rightarrow> is_box cs)),
      ov_getClassSortIndex = Some (\<lambda>h r. sort_index k),
      ov_compareToSameClass = None,
      ov_clone = Some (copy_as k)\<rparr>"

text \<open>
  The sample services: the unary union returns a new MultiPoint, MultiLineString,
  MultiPolygon or GeometryCollection with the coordinates of its one operand; the
  overlay returns a new GeometryCollection; relate returns a fixed matrix.
\<close>

fun multi_of :: "kind \<Rightarrow> kind" where
  "multi_of Point = MultiPoint"
| "multi_of LineString = MultiLineString"
| "multi_of LinearRing = MultiLineString"
| "multi_of Polygon = MultiPolygon"
| "multi_of k = k"

definition sample_env :: "(coords, box, string) env" where
  "sample_env =
     \<lparr>classes = sample_class,
      extends_GeometryCollection = (\<lambda>k. k = MultiPoint \<or> k = MultiLineString \<or> k = MultiPolygon),
      global_envelope = None,
      global_o = None,
      factory_createGeometryCollection = None,
      Envelope_copy = (\<lambda>e. e),
      Envelope_intersects = box_intersects,
      Envelope_contains = box_covers,
      Envelope_covers = box_covers,
      IM_isTouches = (\<lambda>m a b. False),
      IM_isCrosses = (\<lambda>m a b. False),
      IM_isOverlaps = (\<lambda>m a b. False),
      IM_isIntersects = (\<lambda>m. take 1 m \<noteq> ''F''),
      IM_isContains = (\<lambda>m. take 1 m \<noteq> ''F''),
      IM_isCovers = (\<lambda>m. take 1 m \<noteq> ''F''),
      RelateOp_relate = (\<lambda>a b. ret ''0FFFFFFF2''),
      overlayOp = (\<lambda>a b opc. copy_as GeometryCollection a),
      UnaryUnionOp_union = (\<lambda>a h. copy_as (multi_of (cls (geoms h a))) a h),
      RectangleIntersects_intersects = (\<lambda>a b. ret True),
      RectangleContains_contains = (\<lambda>a b. ret True)\<rparr>"

text \<open>
  The sample store. One factory, \<^verbatim>\<open>new jsts.geom.GeometryFactory()\<close>, at every factory
  address. Geometries: 0 and 1 are objects of the base class,
  \<^verbatim>\<open>new jsts.geom.Geometry(factory)\<close>; 2 is the point (1, 1); 3 is an empty point; 4 is
  the point (10, 10); 5 is a collection with two points; 6 is the rectangle with the
  corners (0, 0) and (10, 10).
\<close>

definition base_object :: "(coords, box) geometry" where
  "base_object = \<lparr>cls = Geometry, factory = 0, envelope = None, SRID = None, payload = None\<rparr>"

definition sample_store :: "(coords, box) store" where
  "sample_store =
     \<lparr>geoms = (\<lambda>_. base_object)
        (2 := base_object\<lparr>cls := Point, payload := Some [(1, 1)]\<rparr>,
         3 := base_object\<lparr>cls := Point, payload := Some []\<rparr>,
         4 := base_object\<lparr>cls := Point, payload := Some [(10, 10)]\<rparr>,
         5 := base_object\<lparr>cls := GeometryCollection, payload := Some [(1, 1), (2, 2)]\<rparr>,
         6 := base_object\<lparr>cls := Polygon,
                payload := Some [(0, 0), (10, 0), (10, 10), (0, 10), (0, 0)]\<rparr>),
      factories = (\<lambda>_. \<lparr>factory_SRID = None\<rparr>),
      nextref = 7\<rparr>"

section \<open>Properties\<close>

lemmas js_defs = ret_def throw_def bindS_def

lemmas method_defs =
  class_of_def no_overrides_def isEmpty_def getDimension_def computeEnvelopeInternal_def
  compareToSameClass_def isRectangle_def getClassSortIndex_def clone_def clone_Geometry_def
  new_Geometry_def getFactory_def factory_getSRID_def instanceof_GeometryCollection_def
  checkNotGeometryCollection_def isGeometryCollection_def createGeometryCollection_null_def
  getEnvelopeInternal_def envelope_test_def relate_def

lemmas sample_defs =
  sample_env_def sample_store_def sample_class_def base_object_def copy_as_def
  box_of_def box_intersects_def box_covers_def is_box_def

subsection \<open>What holds for every environment\<close>

text \<open>The base clone, as one equation.\<close>

lemma clone_Geometry_eq:
  "clone_Geometry env this h =
     (Inr (nextref h),
      h\<lparr>geoms := (geoms h)(nextref h :=
           \<lparr>cls = Geometry, factory = factory (geoms h this), envelope = None,
            SRID = factory_SRID (factories h (factory (geoms h this))), payload = None\<rparr>),
        nextref := Suc (nextref h)\<rparr>)"
  by (simp add: clone_Geometry_def new_Geometry_def bindS_def ret_def factory_getSRID_def)

text \<open>
  Where the global scope has no \<^verbatim>\<open>envelope\<close>, \<^verbatim>\<open>getEnvelopeInternal\<close> raises, and so does
  every short-circuit test built on it.
\<close>

lemma getEnvelopeInternal_undeclared:
  "global_envelope env = None \<Longrightarrow>
   fst (getEnvelopeInternal env this h) = Inl (ReferenceError ''envelope'')"
  by (simp add: getEnvelopeInternal_def throw_def Let_def)

lemma envelope_test_undeclared:
  "global_envelope env = None \<Longrightarrow>
   fst (envelope_test test name env this g h) = Inl (ReferenceError ''envelope'')"
  by (simp add: envelope_test_def getEnvelopeInternal_def js_defs Let_def)

text \<open>
  Where the global scope does have one, its value is what comes back, whatever the
  cache slot of the receiver holds.
\<close>

lemma getEnvelopeInternal_declared:
  "global_envelope env = Some v \<Longrightarrow> fst (getEnvelopeInternal env this h) = Inr v"
  by (simp add: getEnvelopeInternal_def ret_def Let_def)

text \<open>The cache slot is filled on the first call and kept afterwards.\<close>

lemma getEnvelopeInternal_cache:
  "envelope (geoms (snd (getEnvelopeInternal env this h)) this) =
     (case envelope (geoms h this) of
        None \<Rightarrow> computeEnvelopeInternal env h this
      | Some e \<Rightarrow> Some e)"
  by (cases "global_envelope env"; cases "envelope (geoms h this)")
     (simp_all add: getEnvelopeInternal_def js_defs Let_def)

text \<open>A call of \<^verbatim>\<open>union\<close> is the unary union of the receiver, with any argument.\<close>

lemma union_is_unary: "union env this other = UnaryUnionOp_union env this"
  by (simp add: union_def union_1221_def)

text \<open>The empty-operand cases of \<^verbatim>\<open>symDifference\<close> and \<^verbatim>\<open>difference\<close> that end in a clone.\<close>

lemma symDifference_left_empty:
  "isEmpty env h this \<Longrightarrow> symDifference env this other h = clone env other h"
  by (simp add: symDifference_def)

lemma symDifference_right_empty:
  "\<not> isEmpty env h this \<Longrightarrow> isEmpty env h other \<Longrightarrow>
   symDifference env this other h = clone env this h"
  by (simp add: symDifference_def)

lemma difference_right_empty:
  "\<not> isEmpty env h this \<Longrightarrow> isEmpty env h other \<Longrightarrow>
   difference env this other h = clone env this h"
  by (simp add: difference_def)

text \<open>
  The cases that end in \<^verbatim>\<open>createGeometryCollection(null)\<close>: the result is the factory's,
  when the factory has the method.
\<close>

lemma intersection_empty:
  "isEmpty env h this \<or> isEmpty env h other \<Longrightarrow>
   intersection env this other h = createGeometryCollection_null env (factory (geoms h this)) h"
  by (auto simp add: intersection_def getFactory_def)

lemma difference_left_empty:
  "isEmpty env h this \<Longrightarrow>
   difference env this other h = createGeometryCollection_null env (factory (geoms h this)) h"
  by (simp add: difference_def getFactory_def)

lemma createGeometryCollection_missing:
  "factory_createGeometryCollection env = None \<Longrightarrow>
   createGeometryCollection_null env f h = (Inl (TypeError ''createGeometryCollection''), h)"
  by (simp add: createGeometryCollection_null_def throw_def)

text \<open>
  With a factory that has no \<^verbatim>\<open>createGeometryCollection\<close>, as the one of the source, the
  empty-operand cases of \<^verbatim>\<open>intersection\<close> and the empty-receiver case of \<^verbatim>\<open>difference\<close>
  raise on every input.
\<close>

lemma empty_operand_source_factory:
  "factory_createGeometryCollection env = None \<Longrightarrow> isEmpty env h e \<Longrightarrow>
     intersection env a e h = (Inl (TypeError ''createGeometryCollection''), h)
   \<and> intersection env e a h = (Inl (TypeError ''createGeometryCollection''), h)
   \<and> difference env e a h = (Inl (TypeError ''createGeometryCollection''), h)"
  by (simp add: intersection_def difference_def createGeometryCollection_null_def throw_def)

text \<open>Two non-empty operands: \<^verbatim>\<open>difference\<close> always stops at the misspelt call.\<close>

lemma difference_nonempty:
  "\<not> isEmpty env h this \<Longrightarrow> \<not> isEmpty env h other \<Longrightarrow>
   difference env this other h = (Inl (TypeError ''heckNotGeometryCollection''), h)"
  by (simp add: difference_def js_defs)

text \<open>
  Two non-empty operands, one of them a GeometryCollection: \<^verbatim>\<open>intersection\<close> and
  \<^verbatim>\<open>symDifference\<close> raise the Error of \<^verbatim>\<open>checkNotGeometryCollection\<close> and leave the store
  as it was.
\<close>

lemma intersection_rejects_collection:
  "\<not> isEmpty env h this \<Longrightarrow> \<not> isEmpty env h other \<Longrightarrow>
   cls (geoms h this) = GeometryCollection \<or> cls (geoms h other) = GeometryCollection \<Longrightarrow>
   intersection env this other h =
     (Inl (Error ''This method does not support GeometryCollection''), h)"
  by (auto simp add: intersection_def checkNotGeometryCollection_def
        instanceof_GeometryCollection_def js_defs)

lemma symDifference_rejects_collection:
  "\<not> isEmpty env h this \<Longrightarrow> \<not> isEmpty env h other \<Longrightarrow>
   cls (geoms h this) = GeometryCollection \<or> cls (geoms h other) = GeometryCollection \<Longrightarrow>
   symDifference env this other h =
     (Inl (Error ''This method does not support GeometryCollection''), h)"
  by (auto simp add: symDifference_def checkNotGeometryCollection_def
        instanceof_GeometryCollection_def js_defs)

text \<open>An object of the base class cannot be compared: it has no \<^verbatim>\<open>getClassSortIndex\<close>.\<close>

lemma compareTo_base_class:
  "cls (geoms h this) = Geometry \<Longrightarrow>
   compareTo env this other h = (Inl (TypeError ''getClassSortIndex''), h)"
  by (simp add: compareTo_def getClassSortIndex_def class_of_def no_overrides_def js_defs)

text \<open>
  When both classes define \<^verbatim>\<open>getClassSortIndex\<close>: the branches of \<^verbatim>\<open>compareTo\<close> that return,
  and the one that does not.
\<close>

lemma compareTo_defined_branches:
  "ov_getClassSortIndex (class_of env h this) = Some f \<Longrightarrow>
   ov_getClassSortIndex (class_of env h other) = Some g \<Longrightarrow>
   isEmpty env h this \<or> isEmpty env h other \<or> f h this \<noteq> g h other \<Longrightarrow>
   compareTo env this other h =
     (Inr (if f h this \<noteq> g h other then f h this - g h other
           else if isEmpty env h this \<and> isEmpty env h other then 0
           else if isEmpty env h this then - 1 else 1), h)"
  by (auto simp add: compareTo_def getClassSortIndex_def js_defs)

lemma compareTo_same_class_nonempty:
  "ov_getClassSortIndex (class_of env h this) = Some f \<Longrightarrow>
   ov_getClassSortIndex (class_of env h other) = Some g \<Longrightarrow>
   f h this = g h other \<Longrightarrow> \<not> isEmpty env h this \<Longrightarrow> \<not> isEmpty env h other \<Longrightarrow>
   global_o env = None \<Longrightarrow>
   compareTo env this other h = (Inl (ReferenceError ''o''), h)"
  by (auto simp add: compareTo_def getClassSortIndex_def js_defs)

text \<open>What does not depend on the overlay service.\<close>

lemma isEmpty_overlay [simp]: "isEmpty (env\<lparr>overlayOp := ov\<rparr>) h x = isEmpty env h x"
  by (simp add: isEmpty_def class_of_def)

lemma clone_overlay [simp]: "clone (env\<lparr>overlayOp := ov\<rparr>) x h = clone env x h"
  by (simp add: clone_def clone_Geometry_eq class_of_def split: option.splits)

lemma createGeometryCollection_null_overlay [simp]:
  "createGeometryCollection_null (env\<lparr>overlayOp := ov\<rparr>) f = createGeometryCollection_null env f"
  by (simp add: createGeometryCollection_null_def)

text \<open>
  \<^verbatim>\<open>symDifference\<close> with one operand empty is the clone of the other operand, whatever the
  overlay service is.
\<close>

lemma symDifference_empty_operand:
  "isEmpty env h e \<Longrightarrow>
     symDifference (env\<lparr>overlayOp := ov\<rparr>) e a h = clone env a h
   \<and> (\<not> isEmpty env h a \<longrightarrow> symDifference (env\<lparr>overlayOp := ov\<rparr>) a e h = clone env a h)"
  by (simp add: symDifference_def)

text \<open>
  The predicates do return where another script has declared a global \<^verbatim>\<open>envelope\<close>; the
  envelope they then test is that global one, for both operands. Here it is the box of
  the rectangle 6.
\<close>

lemma predicates_with_global_envelope:
  "fst (intersects (sample_env\<lparr>global_envelope := Some (Some (0, 10, 0, 10))\<rparr>) 6 2 sample_store)
     = Inr True
   \<and> fst (disjoint (sample_env\<lparr>global_envelope := Some (Some (0, 10, 0, 10))\<rparr>) 6 2 sample_store)
     = Inr False
   \<and> fst (within (sample_env\<lparr>global_envelope := Some (Some (0, 10, 0, 10))\<rparr>) 2 6 sample_store)
     = Inr True
   \<and> fst (touches (sample_env\<lparr>global_envelope := Some (Some (0, 10, 0, 10))\<rparr>) 2 4 sample_store)
     = Inr False
   \<and> fst (intersects (sample_env\<lparr>global_envelope := Some (Some (0, 10, 0, 10))\<rparr>) 2 4 sample_store)
     = Inr True"
  by (simp add: intersects_def disjoint_def within_def contains_def touches_def
        js_defs method_defs sample_defs)

subsection \<open>The claims\<close>

text \<open>
  C10. The base clone returns a new Geometry, at the next free address. Its factory is
  the address of the source's factory, the same object and not a copy; its SRID is what
  that factory's \<^verbatim>\<open>getSRID\<close> returns at the time of the call; its envelope slot is null
  whatever the source's slot holds, since the test in \<^verbatim>\<open>clone\<close> reads the slot of the new
  object. No other object and no factory is changed.
\<close>

theorem clone_base_new_object:
  "fst (clone_Geometry env this h) = Inr (nextref h)
   \<and> cls (geoms (snd (clone_Geometry env this h)) (nextref h)) = Geometry
   \<and> factory (geoms (snd (clone_Geometry env this h)) (nextref h)) = factory (geoms h this)
   \<and> SRID (geoms (snd (clone_Geometry env this h)) (nextref h))
       = factory_getSRID h (factory (geoms h this))
   \<and> envelope (geoms (snd (clone_Geometry env this h)) (nextref h)) = None
   \<and> geoms (snd (clone_Geometry env this h))
       = (geoms h)(nextref h := geoms (snd (clone_Geometry env this h)) (nextref h))
   \<and> factories (snd (clone_Geometry env this h)) = factories h
   \<and> nextref (snd (clone_Geometry env this h)) = Suc (nextref h)"
  by (simp add: clone_Geometry_eq factory_getSRID_def)

text \<open>
  C7. \<^verbatim>\<open>A.within(B)\<close> is the call \<^verbatim>\<open>B.contains(A)\<close> and \<^verbatim>\<open>A.coveredBy(B)\<close> is the call
  \<^verbatim>\<open>B.covers(A)\<close>: the same result or exception and the same effect on the store, with
  nothing computed besides.
\<close>

theorem within_coveredBy_converse:
  "within env a b = contains env b a \<and> coveredBy env a b = covers env b a"
  by (simp add: within_def coveredBy_def)

text \<open>
  C8. \<^verbatim>\<open>A.disjoint(B)\<close> returns the negation of what \<^verbatim>\<open>A.intersects(B)\<close> returns, leaving the
  store as \<^verbatim>\<open>intersects\<close> leaves it; when \<^verbatim>\<open>intersects\<close> raises, \<^verbatim>\<open>disjoint\<close> raises the same.
\<close>

theorem disjoint_negates_intersects:
  "disjoint env a b h =
     (case intersects env a b h of
        (Inl e, h') \<Rightarrow> (Inl e, h')
      | (Inr v, h') \<Rightarrow> (Inr (\<not> v), h'))"
  by (simp add: disjoint_def js_defs split: prod.splits sum.splits)

text \<open>
  C1. The claim: with \<open>E\<close> empty, \<^verbatim>\<open>A.union(E)\<close> and \<^verbatim>\<open>E.union(A)\<close> return a duplicate of
  \<open>A\<close>, as \<^verbatim>\<open>symDifference\<close> does, without a service being called. The code at \<open>E\<close> the
  empty point 3 and \<open>A\<close> the point 2 at (1, 1): \<^verbatim>\<open>E.union(A)\<close> is the call
  \<^verbatim>\<open>UnaryUnionOp.union(E)\<close>; in the sample environment it returns a new MultiPoint
  without coordinates, where \<^verbatim>\<open>A.clone()\<close> and \<^verbatim>\<open>E.symDifference(A)\<close> return a new Point at
  (1, 1).
\<close>

theorem union_runs_unary_example:
  "isEmpty sample_env sample_store 3
   \<and> \<not> isEmpty sample_env sample_store 2
   \<and> payload (geoms sample_store 2) = Some [(1, 1)]
   \<and> union sample_env 3 2 sample_store = UnaryUnionOp_union sample_env 3 sample_store
   \<and> fst (union sample_env 3 2 sample_store) = Inr 7
   \<and> cls (geoms (snd (union sample_env 3 2 sample_store)) 7) = MultiPoint
   \<and> payload (geoms (snd (union sample_env 3 2 sample_store)) 7) = Some []
   \<and> fst (clone sample_env 2 sample_store) = Inr 7
   \<and> cls (geoms (snd (clone sample_env 2 sample_store)) 7) = Point
   \<and> payload (geoms (snd (clone sample_env 2 sample_store)) 7) = Some [(1, 1)]
   \<and> symDifference sample_env 3 2 sample_store = clone sample_env 2 sample_store
   \<and> payload (geoms (snd (symDifference sample_env 3 2 sample_store)) 7) = Some [(1, 1)]"
  by (simp add: union_def union_1221_def symDifference_def js_defs method_defs sample_defs)

text \<open>
  C2. The claim: every call of \<^verbatim>\<open>getEnvelopeInternal\<close> returns the cached envelope. The
  code, in the global scope of the source: the call raises ReferenceError on the
  base-class object 0 and on the point 2; on the point, the first call has filled the
  cache slot with the box (1, 1, 1, 1) before raising, and the second call raises
  again.
\<close>

theorem getEnvelopeInternal_raises_example:
  "fst (getEnvelopeInternal sample_env 0 sample_store) = Inl (ReferenceError ''envelope'')
   \<and> fst (getEnvelopeInternal sample_env 2 sample_store) = Inl (ReferenceError ''envelope'')
   \<and> envelope (geoms (snd (getEnvelopeInternal sample_env 2 sample_store)) 2) = Some (1, 1, 1, 1)
   \<and> fst (getEnvelopeInternal sample_env 2 (snd (getEnvelopeInternal sample_env 2 sample_store)))
       = Inl (ReferenceError ''envelope'')"
  by (simp add: js_defs method_defs sample_defs)

text \<open>
  C3. The claim: with two non-empty operands of which one is a GeometryCollection, each
  of the four overlay operations raises the precondition failure. The code at the
  non-empty collection 5 and the points 2 and 4: \<^verbatim>\<open>union\<close> raises nothing and returns the
  unary union of its receiver; \<^verbatim>\<open>difference\<close> raises a TypeError for the misspelt
  \<^verbatim>\<open>heckNotGeometryCollection\<close>, also between the two points; \<^verbatim>\<open>intersection\<close> and
  \<^verbatim>\<open>symDifference\<close> raise the Error of \<^verbatim>\<open>checkNotGeometryCollection\<close>.
\<close>

theorem collection_operands_example:
  "cls (geoms sample_store 5) = GeometryCollection
   \<and> \<not> isEmpty sample_env sample_store 5
   \<and> \<not> isEmpty sample_env sample_store 2
   \<and> \<not> isEmpty sample_env sample_store 4
   \<and> fst (union sample_env 5 2 sample_store) = Inr 7
   \<and> fst (union sample_env 2 5 sample_store) = Inr 7
   \<and> fst (difference sample_env 5 2 sample_store) = Inl (TypeError ''heckNotGeometryCollection'')
   \<and> fst (difference sample_env 2 4 sample_store) = Inl (TypeError ''heckNotGeometryCollection'')
   \<and> fst (intersection sample_env 5 2 sample_store)
       = Inl (Error ''This method does not support GeometryCollection'')
   \<and> fst (symDifference sample_env 2 5 sample_store)
       = Inl (Error ''This method does not support GeometryCollection'')"
  by (simp add: union_def union_1221_def difference_def intersection_def symDifference_def
        js_defs method_defs sample_defs)

text \<open>
  C4. The claim: with \<open>E\<close> empty, \<^verbatim>\<open>A.intersection(E)\<close>, \<^verbatim>\<open>E.intersection(A)\<close> and
  \<^verbatim>\<open>E.difference(A)\<close> return an empty GeometryCollection and \<^verbatim>\<open>A.difference(E)\<close> returns a
  duplicate of \<open>A\<close>. The code, with the factory of the source, which has no
  \<^verbatim>\<open>createGeometryCollection\<close>: between the two base-class objects 0 and 1, which are
  empty, \<^verbatim>\<open>intersection\<close> raises a TypeError; with \<open>A\<close> the point 2 at (1, 1) and \<open>E\<close> the
  empty point 3, \<^verbatim>\<open>A.intersection(E)\<close>, \<^verbatim>\<open>E.intersection(A)\<close> and \<^verbatim>\<open>E.difference(A)\<close> raise
  the same TypeError, and only \<^verbatim>\<open>A.difference(E)\<close> does what the claim says: it is
  \<^verbatim>\<open>A.clone()\<close>, a new Point at (1, 1).
\<close>

theorem empty_operand_factory_example:
  "cls (geoms sample_store 0) = Geometry
   \<and> cls (geoms sample_store 1) = Geometry
   \<and> isEmpty sample_env sample_store 0
   \<and> isEmpty sample_env sample_store 1
   \<and> fst (intersection sample_env 0 1 sample_store) = Inl (TypeError ''createGeometryCollection'')
   \<and> isEmpty sample_env sample_store 3
   \<and> \<not> isEmpty sample_env sample_store 2
   \<and> fst (intersection sample_env 2 3 sample_store) = Inl (TypeError ''createGeometryCollection'')
   \<and> fst (intersection sample_env 3 2 sample_store) = Inl (TypeError ''createGeometryCollection'')
   \<and> fst (difference sample_env 3 2 sample_store) = Inl (TypeError ''createGeometryCollection'')
   \<and> difference sample_env 2 3 sample_store = clone sample_env 2 sample_store
   \<and> fst (difference sample_env 2 3 sample_store) = Inr 7
   \<and> cls (geoms (snd (difference sample_env 2 3 sample_store)) 7) = Point
   \<and> payload (geoms (snd (difference sample_env 2 3 sample_store)) 7) = Some [(1, 1)]"
  by (simp add: difference_def intersection_def js_defs method_defs sample_defs)

text \<open>
  C5. The claim: \<^verbatim>\<open>intersects\<close> and \<^verbatim>\<open>contains\<close> hand a rectangle operand to the rectangle
  evaluators and \<^verbatim>\<open>covers\<close> returns true for a rectangle receiver whose envelope covers the
  argument's. The code at the rectangle 6, with the corners (0, 0) and (10, 10), and
  the point 2 at (1, 1), in the global scope of the source: the three predicates raise
  ReferenceError in their first line, before \<^verbatim>\<open>isRectangle\<close> is asked.
\<close>

theorem rectangle_predicates_example:
  "fst (isRectangle sample_env 6 sample_store) = Inr True
   \<and> computeEnvelopeInternal sample_env sample_store 6 = Some (0, 10, 0, 10)
   \<and> computeEnvelopeInternal sample_env sample_store 2 = Some (1, 1, 1, 1)
   \<and> Envelope_covers sample_env (0, 10, 0, 10) (Some (1, 1, 1, 1))
   \<and> fst (intersects sample_env 6 2 sample_store) = Inl (ReferenceError ''envelope'')
   \<and> fst (intersects sample_env 2 6 sample_store) = Inl (ReferenceError ''envelope'')
   \<and> fst (contains sample_env 6 2 sample_store) = Inl (ReferenceError ''envelope'')
   \<and> fst (covers sample_env 6 2 sample_store) = Inl (ReferenceError ''envelope'')"
  by (simp add: intersects_def contains_def covers_def js_defs method_defs sample_defs)

text \<open>
  C6. The claim: \<^verbatim>\<open>compareTo\<close> orders by the sort index of the kind, then by emptiness,
  then by \<^verbatim>\<open>compareToSameClass\<close>, and is a total order. The code: between the two
  base-class objects 0 and 1 it raises a TypeError, there being no \<^verbatim>\<open>getClassSortIndex\<close>;
  between the non-empty points 2 and 4, and between the point 2 and itself, it raises
  ReferenceError for the identifier \<^verbatim>\<open>o\<close>.
\<close>

theorem compareTo_raises_example:
  "fst (compareTo sample_env 0 1 sample_store) = Inl (TypeError ''getClassSortIndex'')
   \<and> cls (geoms sample_store 2) = cls (geoms sample_store 4)
   \<and> \<not> isEmpty sample_env sample_store 2
   \<and> \<not> isEmpty sample_env sample_store 4
   \<and> fst (compareTo sample_env 2 4 sample_store) = Inl (ReferenceError ''o'')
   \<and> fst (compareTo sample_env 2 2 sample_store) = Inl (ReferenceError ''o'')"
  by (simp add: compareTo_def js_defs method_defs sample_defs)

text \<open>
  C9. The claim: \<^verbatim>\<open>touches\<close>, \<^verbatim>\<open>crosses\<close> and \<^verbatim>\<open>overlaps\<close> return false when the envelopes of
  the operands do not intersect. The code at the points 2, at (1, 1), and 4, at
  (10, 10), whose envelopes do not intersect, in the global scope of the source: each
  of the three raises ReferenceError.
\<close>

theorem short_circuit_raises_example:
  "computeEnvelopeInternal sample_env sample_store 2 = Some (1, 1, 1, 1)
   \<and> computeEnvelopeInternal sample_env sample_store 4 = Some (10, 10, 10, 10)
   \<and> \<not> Envelope_intersects sample_env (1, 1, 1, 1) (Some (10, 10, 10, 10))
   \<and> fst (touches sample_env 2 4 sample_store) = Inl (ReferenceError ''envelope'')
   \<and> fst (crosses sample_env 2 4 sample_store) = Inl (ReferenceError ''envelope'')
   \<and> fst (overlaps sample_env 2 4 sample_store) = Inl (ReferenceError ''envelope'')"
  by (simp add: touches_def crosses_def overlaps_def js_defs method_defs sample_defs)

end
